theory Spec2Isabelle
  imports Complex_Main
begin

section \<open>Shared vocabulary of the two services\<close>

text \<open>
  The repository holds two Go programs that talk over HTTP: the user service
  (\<^verbatim>\<open>user service/main.go\<close>, port 8080) owns the user table, the auction service
  (port 8081) owns the auction table and the bid ledger.

  Amounts are \<^verbatim>\<open>float64\<close> in the source. Every amount enters through
  \<^verbatim>\<open>encoding/json\<close>, which admits finite numbers only, and the handlers modelled here
  compare amounts, negate one, add two of them and send one as a decimal string. The
  embedding reads an amount as the real number it denotes. Comparison and negation of
  finite \<^verbatim>\<open>float64\<close> values are exact. The addition and the decimal string are
  not, and the model says for each where the rounding goes: see
  \<open>updateBalanceHandler_add\<close> and \<open>ParseFloat\<close>.

  A \<^verbatim>\<open>time.Time\<close> is an instant on a line: \<^verbatim>\<open>t.After(u)\<close> is \<open>u < t\<close> and
  \<^verbatim>\<open>t.Before(u)\<close> is \<open>t < u\<close>. Every \<^verbatim>\<open>time.Now()\<close> of a handler is a parameter
  of its model. Go's \<^verbatim>\<open>int\<close> identifiers are only compared and used as keys.
\<close>

type_synonym time = int

definition After :: "time \<Rightarrow> time \<Rightarrow> bool" where
  "After t u = (u < t)"

definition Before :: "time \<Rightarrow> time \<Rightarrow> bool" where
  "Before t u = (t < u)"

text \<open>
  What a handler writes: either \<^verbatim>\<open>http.Error(w, msg, code)\<close>, or a JSON value
  through \<^verbatim>\<open>json.NewEncoder(w).Encode\<close> with the status left at 200.
\<close>

datatype 'a response = Error string nat | Encode 'a

fun StatusCode :: "'a response \<Rightarrow> nat" where
  "StatusCode (Error msg code) = code"
| "StatusCode (Encode v) = 200"

abbreviation (input) StatusOK :: nat where "StatusOK \<equiv> 200"
abbreviation (input) StatusBadRequest :: nat where "StatusBadRequest \<equiv> 400"
abbreviation (input) StatusPaymentRequired :: nat where "StatusPaymentRequired \<equiv> 402"
abbreviation (input) StatusForbidden :: nat where "StatusForbidden \<equiv> 403"
abbreviation (input) StatusNotFound :: nat where "StatusNotFound \<equiv> 404"
abbreviation (input) StatusMethodNotAllowed :: nat where "StatusMethodNotAllowed \<equiv> 405"
abbreviation (input) StatusInternalServerError :: nat where "StatusInternalServerError \<equiv> 500"
abbreviation (input) StatusServiceUnavailable :: nat where "StatusServiceUnavailable \<equiv> 503"

section \<open>The user service\<close>

record User =
  ID :: int
  Name :: string
  Email :: string
  Balance :: real

text \<open>The body of \<^verbatim>\<open>PUT /users/update_balance\<close> (the local type \<^verbatim>\<open>BalanceUpdate\<close>).\<close>

record BalanceUpdate =
  UserID :: int
  Amount :: real

text \<open>
  The anonymous struct that \<^verbatim>\<open>checkBalanceHandler\<close> encodes and that
  \<^verbatim>\<open>placeBidHandler\<close> decodes into its variable \<^verbatim>\<open>balanceResponse\<close>.
\<close>

record balanceResponse =
  CanBid :: bool
  Balance :: real

text \<open>The package variables \<^verbatim>\<open>users\<close> and \<^verbatim>\<open>nextUserID\<close>.\<close>

record user_state =
  users :: "int \<rightharpoonup> User"
  nextUserID :: int

text \<open>
  \<^verbatim>\<open>checkBalanceHandler\<close>, with the query parameters \<^verbatim>\<open>user_id\<close> and \<^verbatim>\<open>amount\<close>
  already parsed. It reads the table and changes nothing.
\<close>

definition checkBalanceHandler ::
  "user_state \<Rightarrow> string \<Rightarrow> int \<Rightarrow> real \<Rightarrow> balanceResponse response" where
  "checkBalanceHandler s method userID amount =
     (if method \<noteq> ''GET'' then Error ''Method not allowed'' StatusMethodNotAllowed
      else case users s userID of
             None \<Rightarrow> Error ''User not found'' StatusNotFound
           | Some user \<Rightarrow>
               Encode \<lparr>CanBid = (amount \<le> User.Balance user),
                       Balance = User.Balance user\<rparr>)"

text \<open>
  \<^verbatim>\<open>updateBalanceHandler\<close>. The body is \<open>None\<close> when the JSON decoder fails. The
  whole handler body runs under \<^verbatim>\<open>usersMutex.Lock()\<close>, so it is one atomic step.

  The sum \<^verbatim>\<open>user.Balance + update.Amount\<close> of lines 170 and 175 is a
  \<^verbatim>\<open>float64\<close> addition: the exact sum, rounded. The handler is written once, over
  the addition \<open>add\<close> it uses, so that what is proved of \<open>updateBalanceHandler_add\<close>
  for every \<open>add\<close> holds of the rounded addition too.
\<close>

definition updateBalanceHandler_add ::
  "(real \<Rightarrow> real \<Rightarrow> real) \<Rightarrow> user_state \<Rightarrow> string \<Rightarrow> BalanceUpdate option
     \<Rightarrow> User response \<times> user_state" where
  "updateBalanceHandler_add add s method body =
     (if method \<noteq> ''PUT'' then (Error ''Method not allowed'' StatusMethodNotAllowed, s)
      else case body of
             None \<Rightarrow> (Error ''Invalid data'' StatusBadRequest, s)
           | Some update \<Rightarrow>
               (case users s (BalanceUpdate.UserID update) of
                  None \<Rightarrow> (Error ''User not found'' StatusNotFound, s)
                | Some user \<Rightarrow>
                    if add (User.Balance user) (BalanceUpdate.Amount update) < 0
                    then (Error ''Insufficient funds'' StatusBadRequest, s)
                    else
                      let user' = user\<lparr>User.Balance :=
                                    add (User.Balance user) (BalanceUpdate.Amount update)\<rparr>
                      in (Encode user',
                          s\<lparr>users := (users s)(BalanceUpdate.UserID update \<mapsto> user')\<rparr>)))"

text \<open>
  The handler with the sum taken exactly. This is the handler wherever the rounded sum
  and the exact sum cannot be told apart: where only the sign of the sum matters (the sum
  of two \<^verbatim>\<open>float64\<close> values rounds to zero only when it is zero, and rounding keeps
  the sign), and where the exact sum is itself a \<^verbatim>\<open>float64\<close> value, as with the
  whole-number amounts of the sample data.
\<close>

definition updateBalanceHandler ::
  "user_state \<Rightarrow> string \<Rightarrow> BalanceUpdate option \<Rightarrow> User response \<times> user_state" where
  "updateBalanceHandler = updateBalanceHandler_add (+)"

section \<open>The auction service\<close>

record Auction =
  ID :: int
  Item :: string
  SellerID :: int
  StartTime :: time
  EndTime :: time
  StartBid :: real
  CurrentBid :: real
  BuyNow :: real

record Bid =
  UserID :: int
  AuctionID :: int
  Amount :: real
  Timestamp :: time

text \<open>The anonymous struct \<^verbatim>\<open>response\<close> that \<^verbatim>\<open>placeBidHandler\<close> encodes on success.\<close>

record bidResponse =
  Status :: string
  Message :: string
  NewBid :: real

text \<open>The package variables \<^verbatim>\<open>auctions\<close>, \<^verbatim>\<open>bids\<close> and \<^verbatim>\<open>nextAuctionID\<close>.\<close>

record auction_state =
  auctions :: "int \<rightharpoonup> Auction"
  bids :: "int \<rightharpoonup> Bid list"
  nextAuctionID :: int

text \<open>
  Reading \<^verbatim>\<open>bids[k]\<close> for a key that is not in the map gives the nil slice, and
  \<^verbatim>\<open>append\<close> to it gives a one-element slice.
\<close>

definition ledger :: "auction_state \<Rightarrow> int \<Rightarrow> Bid list" where
  "ledger s k = (case bids s k of None \<Rightarrow> [] | Some bs \<Rightarrow> bs)"

text \<open>
  The request as \<^verbatim>\<open>placeBidHandler\<close> sees it: the method, and the body after
  \<^verbatim>\<open>json.NewDecoder(r.Body).Decode(&newBid)\<close>, \<open>None\<close> when decoding fails.
\<close>

record request =
  Method :: string
  Body :: "Bid option"

text \<open>
  What happens to a call from the auction service to the user service. \<open>Delivered\<close>: the
  user service handles the request and its answer arrives. \<open>NotSent\<close>: the request never
  reaches the user service. \<open>ResponseLost\<close>: the user service handles the request, but the
  caller gets an error (the connection breaks, or the five-second \<^verbatim>\<open>Timeout\<close> of the
  client that sends the update expires first). In the last two cases the caller's
  \<^verbatim>\<open>err\<close> is not nil.
\<close>

datatype transport = Delivered | NotSent | ResponseLost

text \<open>
  \<^verbatim>\<open>fmt.Sprintf("%f", x)\<close> writes \<open>x\<close> with six digits after the point, rounding the
  exact value half to even.
\<close>

definition Sprintf_f :: "real \<Rightarrow> real" where
  "Sprintf_f x =
     (let y = x * 1000000; n = \<lfloor>y\<rfloor>; r = y - of_int n
      in of_int (if r < 1/2 then n else if 1/2 < r then n + 1
                 else if even n then n else n + 1) / 1000000)"

text \<open>
  \<^verbatim>\<open>strconv.ParseFloat(.., 64)\<close> in \<^verbatim>\<open>checkBalanceHandler\<close> reads the decimal
  back as the nearest \<^verbatim>\<open>float64\<close>, ties to the even mantissa. Between
  \<open>2 ^ e\<close> and \<open>2 ^ (e + 1)\<close> the \<^verbatim>\<open>float64\<close> values are the multiples of
  \<open>2 ^ (e - 52)\<close>, and below \<open>2 ^ - 1022\<close> the multiples of \<open>2 ^ - 1074\<close>. The
  decimal that \<^verbatim>\<open>%f\<close> writes for a \<^verbatim>\<open>float64\<close> is never beyond the largest
  \<^verbatim>\<open>float64\<close>, so the overflow of \<^verbatim>\<open>ParseFloat\<close> has no input here.
\<close>

definition roundEven :: "real \<Rightarrow> int" where
  "roundEven y =
     (let n = \<lfloor>y\<rfloor>; r = y - of_int n
      in if r < 1/2 then n else if 1/2 < r then n + 1
         else if even n then n else n + 1)"

definition ParseFloat :: "real \<Rightarrow> real" where
  "ParseFloat x =
     (if x = 0 then 0
      else let e = max \<lfloor>log 2 \<bar>x\<bar>\<rfloor> (- 1022);
               ulp = 2 powr (of_int e - 52)
           in of_int (roundEven (x / ulp)) * ulp)"

text \<open>
  \<^verbatim>\<open>http.Get(balanceCheckURL)\<close>, lines 153 to 159: \<open>None\<close> is a non-nil \<^verbatim>\<open>err\<close>.
  The user id is written with \<^verbatim>\<open>%d\<close> and parsed back unchanged; the amount is
  written with \<^verbatim>\<open>%f\<close> and parsed back by \<^verbatim>\<open>ParseFloat\<close>. This is the amount
  \<^verbatim>\<open>checkBalanceHandler\<close> compares with the balance.
\<close>

definition Get_check_balance ::
  "transport \<Rightarrow> user_state \<Rightarrow> int \<Rightarrow> real \<Rightarrow> balanceResponse response option" where
  "Get_check_balance tr us userID amount =
     (case tr of
        Delivered \<Rightarrow>
          Some (checkBalanceHandler us ''GET'' userID (ParseFloat (Sprintf_f amount)))
      | NotSent \<Rightarrow> None
      | ResponseLost \<Rightarrow> None)"

text \<open>
  \<^verbatim>\<open>client.Do(req)\<close> with the PUT request of lines 186 to 210. The JSON body
  \<^verbatim>\<open>{"user_id": .., "amount": ..}\<close> decodes in the user service to the same two
  values. The second component is the user service's state after the call.
\<close>

definition Do_update_balance ::
  "transport \<Rightarrow> user_state \<Rightarrow> BalanceUpdate \<Rightarrow> User response option \<times> user_state" where
  "Do_update_balance tr us update =
     (case tr of
        Delivered \<Rightarrow>
          (case updateBalanceHandler us ''PUT'' (Some update) of
             (respUpdate, us') \<Rightarrow> (Some respUpdate, us'))
      | NotSent \<Rightarrow> (None, us)
      | ResponseLost \<Rightarrow> (None, snd (updateBalanceHandler us ''PUT'' (Some update))))"

text \<open>
  \<^verbatim>\<open>placeBidHandler\<close> takes \<^verbatim>\<open>auctionMutex\<close> twice: to read the auction (lines 134
  to 136) and to write it (lines 231 to 236). Between the two it holds no lock and calls
  the user service twice. The model follows that shape in three parts, and
  \<open>placeBidHandler\<close> below is the three run one after the other with nothing in between.

  First part, lines 123 to 151: the method, the body, the lookup and the two checks
  against the copy \<^verbatim>\<open>auction\<close> that the lookup returned. \<open>Inl\<close> is an early
  \<^verbatim>\<open>return\<close> with its response; \<open>Inr\<close> carries the local variables \<^verbatim>\<open>auction\<close> and
  \<^verbatim>\<open>newBid\<close> on to the rest of the handler.
\<close>

definition placeBid_validate ::
  "auction_state \<Rightarrow> request \<Rightarrow> time \<Rightarrow> bidResponse response + Auction \<times> Bid" where
  "placeBid_validate s r now =
     (if Method r \<noteq> ''POST'' then Inl (Error ''Method not allowed'' StatusMethodNotAllowed)
      else case Body r of
             None \<Rightarrow> Inl (Error ''Invalid bid data'' StatusBadRequest)
           | Some newBid \<Rightarrow>
               (case auctions s (AuctionID newBid) of
                  None \<Rightarrow> Inl (Error ''Auction not found'' StatusNotFound)
                | Some auction \<Rightarrow>
                    if After now (EndTime auction)
                    then Inl (Error ''Auction has ended'' StatusForbidden)
                    else if Bid.Amount newBid \<le> CurrentBid auction
                    then Inl (Error ''Bid must be higher than current bid'' StatusBadRequest)
                    else Inr (auction, newBid)))"

text \<open>
  Second part, lines 153 to 229: the balance check and the deduction. \<open>Some\<close> is an early
  \<^verbatim>\<open>return\<close> with its response, \<open>None\<close> falls through to the commit. The second
  component is the user service's state afterwards. \<^verbatim>\<open>json.Marshal\<close> of a map with an
  int and a finite float and \<^verbatim>\<open>http.NewRequest\<close> with a constant URL do not fail, so
  their error branches (lines 193 and 202) have no input that reaches them.
\<close>

definition placeBid_debit ::
  "user_state \<Rightarrow> Bid \<Rightarrow> transport \<Rightarrow> transport \<Rightarrow> bidResponse response option \<times> user_state" where
  "placeBid_debit us newBid trCheck trUpdate =
     (case Get_check_balance trCheck us (Bid.UserID newBid) (Bid.Amount newBid) of
        None \<Rightarrow> (Some (Error ''User service unavailable'' StatusServiceUnavailable), us)
      | Some resp \<Rightarrow>
          if StatusCode resp \<noteq> StatusOK
          then (Some (Error ''Failed to check user balance'' StatusInternalServerError), us)
          else
            (case resp of
               Error msg code \<Rightarrow>
                 (Some (Error ''Invalid balance response'' StatusInternalServerError), us)
             | Encode balanceResponse \<Rightarrow>
                 if \<not> CanBid balanceResponse
                 then (Some (Error ''Insufficient funds'' StatusPaymentRequired), us)
                 else
                   (case Do_update_balance trUpdate us
                           \<lparr>BalanceUpdate.UserID = Bid.UserID newBid,
                            BalanceUpdate.Amount = - Bid.Amount newBid\<rparr> of
                      (None, us') \<Rightarrow>
                        (Some (Error ''User service unavailable'' StatusServiceUnavailable), us')
                    | (Some respUpdate, us') \<Rightarrow>
                        if StatusCode respUpdate \<noteq> StatusOK
                        then (Some (Error ''Failed to deduct user balance''
                                      StatusInternalServerError), us')
                        else (None, us'))))"

text \<open>
  Third part, lines 231 to 249: under the write lock, the copy \<^verbatim>\<open>auction\<close> gets the
  new amount and is stored back, the bid gets its timestamp and is appended to the ledger
  of its auction; then the success response. These lines compare nothing.
\<close>

definition placeBid_commit ::
  "auction_state \<Rightarrow> Auction \<Rightarrow> Bid \<Rightarrow> time \<Rightarrow> bidResponse response \<times> auction_state" where
  "placeBid_commit s auction newBid now =
     (let auction' = auction\<lparr>CurrentBid := Bid.Amount newBid\<rparr>;
          newBid' = newBid\<lparr>Timestamp := now\<rparr>
      in (Encode \<lparr>Status = ''success'', Message = ''Bid accepted'',
                   NewBid = Bid.Amount newBid\<rparr>,
          s\<lparr>auctions := (auctions s)(AuctionID newBid \<mapsto> auction'),
            bids := (bids s)(AuctionID newBid \<mapsto> ledger s (AuctionID newBid) @ [newBid'])\<rparr>))"

text \<open>The two services side by side.\<close>

record world =
  auctionService :: auction_state
  userService :: user_state

text \<open>
  Everything after the first part, lines 153 to 249, from the value the first part left:
  an early \<^verbatim>\<open>return\<close> stays what it is; otherwise the deduction, and the commit
  if the deduction went through. \<open>now'\<close> is the clock reading of line 234.
\<close>

definition placeBid_rest ::
  "world \<Rightarrow> bidResponse response + Auction \<times> Bid \<Rightarrow> transport \<Rightarrow> transport \<Rightarrow> time
     \<Rightarrow> bidResponse response \<times> world" where
  "placeBid_rest w v trCheck trUpdate now' =
     (case v of
        Inl resp \<Rightarrow> (resp, w)
      | Inr (auction, newBid) \<Rightarrow>
          (case placeBid_debit (userService w) newBid trCheck trUpdate of
             (Some resp, us') \<Rightarrow> (resp, w\<lparr>userService := us'\<rparr>)
           | (None, us') \<Rightarrow>
               (case placeBid_commit (auctionService w) auction newBid now' of
                  (resp, s') \<Rightarrow> (resp, \<lparr>auctionService = s', userService = us'\<rparr>))))"

text \<open>
  \<^verbatim>\<open>placeBidHandler\<close> when no other request runs between its parts. \<open>now\<close> is the
  clock reading of line 143.
\<close>

definition placeBidHandler ::
  "world \<Rightarrow> request \<Rightarrow> time \<Rightarrow> transport \<Rightarrow> transport \<Rightarrow> time \<Rightarrow> bidResponse response \<times> world" where
  "placeBidHandler w r now trCheck trUpdate now' =
     placeBid_rest w (placeBid_validate (auctionService w) r now) trCheck trUpdate now'"

text \<open>
  \<^verbatim>\<open>listAuctionsHandler\<close>: the auctions whose end time the clock has not reached. A Go
  map is ranged over in no fixed order, so the encoded list is modelled as a set. The loop
  reads the clock once for each auction; the model takes one reading for the pass.
\<close>

definition listAuctionsHandler ::
  "auction_state \<Rightarrow> string \<Rightarrow> time \<Rightarrow> Auction set response" where
  "listAuctionsHandler s method now =
     (if method \<noteq> ''GET'' then Error ''Method not allowed'' StatusMethodNotAllowed
      else Encode {auction \<in> ran (auctions s). Before now (EndTime auction)})"

section \<open>Requests served one after another\<close>

text \<open>
  One call of \<open>placeBidHandler\<close>: the request, the two clock readings and what
  happens to the two calls to the user service.
\<close>

record attempt =
  Req :: request
  Now :: time
  CheckNet :: transport
  UpdateNet :: transport
  Now' :: time

text \<open>A list of bid requests, each served to its end before the next one starts.\<close>

fun serve :: "world \<Rightarrow> attempt list \<Rightarrow> bidResponse response list \<times> world" where
  "serve w [] = ([], w)"
| "serve w (a # as) =
     (case placeBidHandler w (Req a) (Now a) (CheckNet a) (UpdateNet a) (Now' a) of
        (resp, w1) \<Rightarrow>
          (case serve w1 as of (resps, w2) \<Rightarrow> (resp # resps, w2)))"

text \<open>How many of the served requests were bids on auction \<open>k\<close> answered with 200.\<close>

fun accepted_on :: "int \<Rightarrow> attempt list \<Rightarrow> bidResponse response list \<Rightarrow> nat" where
  "accepted_on k (a # as) (resp # resps) =
     (if StatusCode resp = StatusOK \<and> map_option AuctionID (Body (Req a)) = Some k
      then Suc (accepted_on k as resps) else accepted_on k as resps)"
| "accepted_on k as resps = 0"

section \<open>Two requests that overlap\<close>

text \<open>
  \<^verbatim>\<open>net/http\<close> runs every request on a goroutine of its own, and
  \<^verbatim>\<open>placeBidHandler\<close> holds no lock between line 136 and line 231. One schedule this
  allows for two requests \<open>a\<close> and \<open>b\<close>: both run lines 123 to 151 on the same table,
  then \<open>a\<close> runs lines 153 to 249, then \<open>b\<close> does.
\<close>

definition serve_overlapping ::
  "world \<Rightarrow> attempt \<Rightarrow> attempt \<Rightarrow> bidResponse response \<times> bidResponse response \<times> world" where
  "serve_overlapping w a b =
     (let va = placeBid_validate (auctionService w) (Req a) (Now a);
          vb = placeBid_validate (auctionService w) (Req b) (Now b)
      in case placeBid_rest w va (CheckNet a) (UpdateNet a) (Now' a) of
           (ra, w1) \<Rightarrow>
             (case placeBid_rest w1 vb (CheckNet b) (UpdateNet b) (Now' b) of
                (rb, w2) \<Rightarrow> (ra, rb, w2)))"

section \<open>Sample data\<close>

definition alice :: User where
  "alice = \<lparr>User.ID = 1, Name = ''alice'', Email = ''alice@example.org'',
            User.Balance = 150\<rparr>"

definition bob :: User where
  "bob = \<lparr>User.ID = 2, Name = ''bob'', Email = ''bob@example.org'', User.Balance = 50\<rparr>"

definition carol :: User where
  "carol = \<lparr>User.ID = 3, Name = ''carol'', Email = ''carol@example.org'',
            User.Balance = 500\<rparr>"

definition users0 :: user_state where
  "users0 = \<lparr>users = [1 \<mapsto> alice, 2 \<mapsto> bob, 3 \<mapsto> carol], nextUserID = 4\<rparr>"

text \<open>
  An auction as \<^verbatim>\<open>createAuctionHandler\<close> stores it: \<^verbatim>\<open>CurrentBid\<close> starts at
  \<^verbatim>\<open>StartBid\<close>.
\<close>

definition lot :: Auction where
  "lot = \<lparr>Auction.ID = 1, Item = ''clock'', SellerID = 2, StartTime = 0, EndTime = 1000,
          StartBid = 100, CurrentBid = 100, BuyNow = 0\<rparr>"

definition auctions0 :: auction_state where
  "auctions0 = \<lparr>auctions = [1 \<mapsto> lot], bids = Map.empty, nextAuctionID = 2\<rparr>"

definition world0 :: world where
  "world0 = \<lparr>auctionService = auctions0, userService = users0\<rparr>"

text \<open>
  The bid decoded from \<^verbatim>\<open>{"user_id": .., "auction_id": .., "amount": ..}\<close>, and the
  well-formed \<^verbatim>\<open>POST /auctions/bid\<close> that carries it.
\<close>

definition json_bid :: "int \<Rightarrow> int \<Rightarrow> real \<Rightarrow> Bid" where
  "json_bid userID auctionID amount =
     \<lparr>Bid.UserID = userID, AuctionID = auctionID, Bid.Amount = amount, Timestamp = 0\<rparr>"

definition post_bid :: "int \<Rightarrow> int \<Rightarrow> real \<Rightarrow> request" where
  "post_bid userID auctionID amount =
     \<lparr>Method = ''POST'', Body = Some (json_bid userID auctionID amount)\<rparr>"

text \<open>The encoded success response for an amount.\<close>

definition accepted :: "real \<Rightarrow> bidResponse response" where
  "accepted amount =
     Encode \<lparr>Status = ''success'', Message = ''Bid accepted'', NewBid = amount\<rparr>"

text \<open>
  A request served with both calls to the user service delivered; \<open>t\<close> is the clock at
  line 143 and \<open>t'\<close> the clock at line 234.
\<close>

definition delivered :: "request \<Rightarrow> time \<Rightarrow> time \<Rightarrow> attempt" where
  "delivered r t t' =
     \<lparr>Req = r, Now = t, CheckNet = Delivered, UpdateNet = Delivered, Now' = t'\<rparr>"

lemmas sample_defs =
  alice_def bob_def carol_def users0_def lot_def auctions0_def world0_def json_bid_def
  post_bid_def accepted_def delivered_def

lemmas handler_defs =
  placeBidHandler_def placeBid_rest_def placeBid_validate_def placeBid_debit_def placeBid_commit_def
  Get_check_balance_def Do_update_balance_def checkBalanceHandler_def
  updateBalanceHandler_def updateBalanceHandler_add_def After_def Before_def ledger_def
  Sprintf_f_def Let_def

section \<open>Properties of the user service\<close>

lemma updateBalanceHandler_rejected:
  "updateBalanceHandler s method body = (Error msg code, s') \<Longrightarrow> s' = s"
  by (auto simp: updateBalanceHandler_def updateBalanceHandler_add_def Let_def split: if_splits option.splits)

lemma updateBalanceHandler_applied:
  assumes "users s (BalanceUpdate.UserID update) = Some user"
    and "0 \<le> User.Balance user + BalanceUpdate.Amount update"
  shows "updateBalanceHandler s ''PUT'' (Some update) =
           (Encode (user\<lparr>User.Balance := User.Balance user + BalanceUpdate.Amount update\<rparr>),
            s\<lparr>users := (users s)(BalanceUpdate.UserID update \<mapsto>
                 user\<lparr>User.Balance := User.Balance user + BalanceUpdate.Amount update\<rparr>)\<rparr>)"
  using assms by (simp add: updateBalanceHandler_def updateBalanceHandler_add_def Let_def)

text \<open>
  Claim C10. When the stored balance plus the requested amount is below zero, the update
  is refused with \<^verbatim>\<open>Insufficient funds\<close> and the state is the one before; and whatever
  the request, a user whose balance was non-negative before it has a non-negative
  balance after it.
\<close>

theorem updateBalanceHandler_nonnegative:
  "(users s (BalanceUpdate.UserID update) = Some user \<and>
      User.Balance user + BalanceUpdate.Amount update < 0 \<longrightarrow>
        updateBalanceHandler s ''PUT'' (Some update) =
          (Error ''Insufficient funds'' StatusBadRequest, s)) \<and>
   (updateBalanceHandler s method body = (resp, s') \<and>
      users s k = Some u \<and> 0 \<le> User.Balance u \<longrightarrow>
        (\<exists>u'. users s' k = Some u' \<and> 0 \<le> User.Balance u'))"
  by (auto simp: updateBalanceHandler_def updateBalanceHandler_add_def Let_def split: if_splits option.splits)

theorem updateBalanceHandler_nonnegative_witness:
  "users users0 1 = Some alice \<and> User.Balance alice + (- 200) < 0 \<and>
   updateBalanceHandler users0 ''PUT''
       (Some \<lparr>BalanceUpdate.UserID = 1, BalanceUpdate.Amount = - 200\<rparr>) =
     (Error ''Insufficient funds'' StatusBadRequest, users0) \<and>
   0 \<le> User.Balance alice \<and>
   (\<exists>u'. users (snd (updateBalanceHandler users0 ''PUT''
                        (Some \<lparr>BalanceUpdate.UserID = 1, BalanceUpdate.Amount = - 120\<rparr>))) 1
            = Some u' \<and>
         0 \<le> User.Balance u')"
proof -
  have h1: "users users0 1 = Some alice"
    by (simp add: users0_def)
  have h2: "User.Balance alice + (- 200) < 0" "0 \<le> User.Balance alice"
    by (simp_all add: alice_def)
  show ?thesis
    using h1 h2
      updateBalanceHandler_nonnegative [of users0
        "\<lparr>BalanceUpdate.UserID = 1, BalanceUpdate.Amount = - 200\<rparr>" alice "''PUT''"
        "Some \<lparr>BalanceUpdate.UserID = 1, BalanceUpdate.Amount = - 120\<rparr>"
        "fst (updateBalanceHandler users0 ''PUT''
                (Some \<lparr>BalanceUpdate.UserID = 1, BalanceUpdate.Amount = - 120\<rparr>))"
        "snd (updateBalanceHandler users0 ''PUT''
                (Some \<lparr>BalanceUpdate.UserID = 1, BalanceUpdate.Amount = - 120\<rparr>))" 1 alice]
    by simp
qed

section \<open>Properties of the bid handler\<close>

subsection \<open>The parts of the handler\<close>

lemma placeBid_validate_Inr:
  "placeBid_validate s r now = Inr (auction, newBid) \<longleftrightarrow>
     Method r = ''POST'' \<and> Body r = Some newBid \<and>
     auctions s (AuctionID newBid) = Some auction \<and>
     \<not> After now (EndTime auction) \<and> CurrentBid auction < Bid.Amount newBid"
  by (auto simp: placeBid_validate_def split: option.splits)

lemma placeBid_validate_Inl:
  "placeBid_validate s r now = Inl resp \<Longrightarrow> StatusCode resp \<noteq> StatusOK"
  by (auto simp: placeBid_validate_def split: option.splits if_splits)

lemma placeBid_debit_Some:
  "placeBid_debit us newBid trCheck trUpdate = (Some resp, us') \<Longrightarrow>
     StatusCode resp \<in> {StatusServiceUnavailable, StatusInternalServerError, StatusPaymentRequired}"
  by (auto simp: placeBid_debit_def split: option.splits if_splits response.splits prod.splits)

lemma placeBid_commit_StatusCode:
  "StatusCode (fst (placeBid_commit s auction newBid now')) = StatusOK"
  by (simp add: placeBid_commit_def Let_def)

lemma placeBidHandler_accepted:
  assumes "placeBidHandler w r now trCheck trUpdate now' = (resp, w')"
    and "StatusCode resp = StatusOK"
  shows "\<exists>auction newBid us'.
           placeBid_validate (auctionService w) r now = Inr (auction, newBid) \<and>
           placeBid_debit (userService w) newBid trCheck trUpdate = (None, us') \<and>
           placeBid_commit (auctionService w) auction newBid now' = (resp, auctionService w') \<and>
           userService w' = us'"
proof (cases "placeBid_validate (auctionService w) r now")
  case (Inl e)
  with assms placeBid_validate_Inl [OF Inl] show ?thesis
    by (simp add: placeBidHandler_def placeBid_rest_def)
next
  case (Inr p)
  obtain auction newBid where p: "p = (auction, newBid)" by (cases p)
  obtain o' us' where d: "placeBid_debit (userService w) newBid trCheck trUpdate = (o', us')"
    by (cases "placeBid_debit (userService w) newBid trCheck trUpdate")
  show ?thesis
  proof (cases o')
    case None
    with assms Inr p d show ?thesis
      by (auto simp: placeBidHandler_def placeBid_rest_def split: prod.splits)
  next
    case (Some e)
    with assms Inr p d placeBid_debit_Some [of "userService w" newBid trCheck trUpdate e us']
    show ?thesis
      by (auto simp: placeBidHandler_def placeBid_rest_def)
  qed
qed

lemma placeBidHandler_not_accepted:
  assumes "placeBidHandler w r now trCheck trUpdate now' = (resp, w')"
    and "StatusCode resp \<noteq> StatusOK"
  shows "auctionService w' = auctionService w"
  using assms placeBid_commit_StatusCode
  apply (auto simp: placeBidHandler_def placeBid_rest_def split: sum.splits prod.splits option.splits)
  by (metis fst_conv)

lemma placeBidHandler_rejects:
  assumes "placeBid_validate (auctionService w) r now = Inl resp"
  shows "placeBidHandler w r now trCheck trUpdate now' = (resp, w)"
  using assms by (simp add: placeBidHandler_def placeBid_rest_def)

lemma roundEven_of_int: "roundEven (of_int m) = m"
  by (simp add: roundEven_def)

lemma ParseFloat_exact:
  assumes lo: "2 ^ k \<le> x" and hi: "x < 2 ^ Suc k" and k: "k \<le> 52"
    and m: "x * 2 ^ (52 - k) = of_int m"
  shows "ParseFloat x = x"
proof -
  have pos: "0 < x"
    using lo by (meson less_le_trans zero_less_numeral zero_less_power)
  have "2 powr (real (Suc k)) = 2 ^ Suc k"
    by (rule powr_realpow) simp
  moreover have "of_int (int k + 1) = real (Suc k)"
    by simp
  ultimately have "2 powr (of_int (int k + 1)) = (2::real) ^ Suc k"
    by (simp only:)
  moreover have "2 powr (of_int (int k)) = (2::real) ^ k"
    by (simp add: powr_realpow)
  ultimately have "2 powr (of_int (int k)) \<le> x \<and> x < 2 powr (of_int (int k + 1))"
    using lo hi by (simp only:)
  then have e: "\<lfloor>log 2 x\<rfloor> = int k"
    using floor_log_eq_powr_iff [of x 2 "int k"] pos by simp
  have u: "(2::real) powr (of_int (int k) - 52) = 1 / 2 ^ (52 - k)"
  proof -
    have "of_int (int k) - (52::real) = - real (52 - k)"
      using k by simp
    then have "(2::real) powr (of_int (int k) - 52) = 2 powr (- real (52 - k))"
      by (simp only:)
    also have "\<dots> = 1 / 2 powr (real (52 - k))"
      by (rule powr_minus_divide)
    also have "\<dots> = 1 / 2 ^ (52 - k)"
      by (simp add: powr_realpow)
    finally show ?thesis .
  qed
  have "x / (1 / 2 ^ (52 - k)) = of_int m"
    using m by simp
  then have "ParseFloat x = of_int m * (1 / 2 ^ (52 - k))"
    using pos e u by (simp add: ParseFloat_def Let_def roundEven_of_int)
  also have "\<dots> = x"
    using m [symmetric] by simp
  finally show ?thesis .
qed

lemma ParseFloat_120 [simp]: "ParseFloat 120 = 120"
  by (rule ParseFloat_exact [where k = 6 and m = "120 * 2 ^ 46"]) simp_all

lemma ParseFloat_130 [simp]: "ParseFloat 130 = 130"
  by (rule ParseFloat_exact [where k = 7 and m = "130 * 2 ^ 45"]) simp_all

lemma ParseFloat_150 [simp]: "ParseFloat 150 = 150"
  by (rule ParseFloat_exact [where k = 7 and m = "150 * 2 ^ 45"]) simp_all

text \<open>
  The \<^verbatim>\<open>float64\<close> nearest to 0.3 lies a little below it. Written with \<^verbatim>\<open>%f\<close>
  it is the decimal 0.300000, which \<^verbatim>\<open>ParseFloat\<close> reads back as that same
  \<^verbatim>\<open>float64\<close>: a bidder whose balance equals the bid passes the balance check.
\<close>

lemma ParseFloat_three_tenths:
  "ParseFloat (3 / 10) = 5404319552844595 / 2 ^ 54"
proof -
  have "(2::real) powr (of_int (- 2)) \<le> 3 / 10 \<and> (3::real) / 10 < 2 powr (of_int (- 2 + 1))"
    by (simp add: powr_minus_divide)
  then have e: "\<lfloor>log 2 (3 / 10 :: real)\<rfloor> = - 2"
    using floor_log_eq_powr_iff [of "3 / 10" 2 "- 2"] by simp
  have u: "(2::real) powr (- 54) = 1 / 2 ^ 54"
    by (simp add: powr_minus_divide)
  have f: "\<lfloor>27021597764222976 / 5 :: real\<rfloor> = 5404319552844595"
    by simp
  have r: "roundEven (27021597764222976 / 5) = 5404319552844595"
    unfolding roundEven_def Let_def f by simp
  show ?thesis
    using r by (simp add: ParseFloat_def Let_def e u)
qed

lemma Get_check_balance_three_tenths:
  "Get_check_balance Delivered
     \<lparr>users = [1 \<mapsto> alice\<lparr>User.Balance := 5404319552844595 / 2 ^ 54\<rparr>], nextUserID = 2\<rparr>
     1 (5404319552844595 / 2 ^ 54) =
   Some (Encode \<lparr>CanBid = True, Balance = 5404319552844595 / 2 ^ 54\<rparr>)"
  by (simp add: Get_check_balance_def checkBalanceHandler_def Sprintf_f_def Let_def
      ParseFloat_three_tenths)

lemma Sprintf_f_120 [simp]: "Sprintf_f 120 = 120"
  by (simp add: Sprintf_f_def)

lemma Sprintf_f_130 [simp]: "Sprintf_f 130 = 130"
  by (simp add: Sprintf_f_def)

text \<open>
  Claim C5. A well-formed bid on an existing auction whose end time the clock has not
  passed, with an amount exactly equal to the auction's current bid, is answered
  \<^verbatim>\<open>Bid must be higher than current bid\<close> with status 400, and both services are
  left as they were.
\<close>

theorem placeBidHandler_equal_bid_rejected:
  assumes "Method r = ''POST''" and "Body r = Some newBid"
    and "auctions (auctionService w) (AuctionID newBid) = Some auction"
    and "\<not> After now (EndTime auction)"
    and "Bid.Amount newBid = CurrentBid auction"
  shows "placeBidHandler w r now trCheck trUpdate now' =
           (Error ''Bid must be higher than current bid'' StatusBadRequest, w)"
  using assms by (simp add: placeBidHandler_def placeBid_rest_def placeBid_validate_def)

theorem placeBidHandler_equal_bid_rejected_witness:
  "Method (post_bid 1 1 100) = ''POST'' \<and> Body (post_bid 1 1 100) = Some (json_bid 1 1 100) \<and>
   auctions (auctionService world0) (AuctionID (json_bid 1 1 100)) = Some lot \<and>
   \<not> After 1000 (EndTime lot) \<and> Bid.Amount (json_bid 1 1 100) = CurrentBid lot \<and>
   placeBidHandler world0 (post_bid 1 1 100) 1000 Delivered Delivered 1001 =
     (Error ''Bid must be higher than current bid'' StatusBadRequest, world0)"
proof -
  have h: "Method (post_bid 1 1 100) = ''POST''"
    "Body (post_bid 1 1 100) = Some (json_bid 1 1 100)"
    "auctions (auctionService world0) (AuctionID (json_bid 1 1 100)) = Some lot"
    "\<not> After 1000 (EndTime lot)"
    "Bid.Amount (json_bid 1 1 100) = CurrentBid lot"
    by (simp_all add: sample_defs After_def)
  from placeBidHandler_equal_bid_rejected [OF h] h show ?thesis by simp
qed

text \<open>
  Claim C6. When the handler answers \<^verbatim>\<open>Auction not found\<close> (404),
  \<^verbatim>\<open>Auction has ended\<close> (403) or \<^verbatim>\<open>Bid must be higher than current bid\<close>
  (400), the state after the request is the state before it: the auction table, the bid
  ledger and every user's balance are untouched.
\<close>

theorem placeBidHandler_validation_no_effect:
  assumes "placeBidHandler w r now trCheck trUpdate now' = (resp, w')"
    and "resp = Error ''Auction not found'' StatusNotFound \<or>
         resp = Error ''Auction has ended'' StatusForbidden \<or>
         resp = Error ''Bid must be higher than current bid'' StatusBadRequest"
  shows "w' = w \<and>
         auctions (auctionService w') = auctions (auctionService w) \<and>
         bids (auctionService w') = bids (auctionService w) \<and>
         users (userService w') = users (userService w)"
proof (cases "placeBid_validate (auctionService w) r now")
  case (Inl e)
  with assms(1) show ?thesis
    by (simp add: placeBidHandler_def placeBid_rest_def)
next
  case (Inr p)
  obtain auction newBid where p: "p = (auction, newBid)" by (cases p)
  obtain o' us' where d: "placeBid_debit (userService w) newBid trCheck trUpdate = (o', us')"
    by (cases "placeBid_debit (userService w) newBid trCheck trUpdate")
  have "StatusCode resp \<in> {StatusNotFound, StatusForbidden, StatusBadRequest}"
    using assms(2) by auto
  moreover have "StatusCode resp \<in>
      {StatusServiceUnavailable, StatusInternalServerError, StatusPaymentRequired, StatusOK}"
  proof (cases o')
    case None
    with assms(1) Inr p d placeBid_commit_StatusCode [of "auctionService w" auction newBid now']
    show ?thesis
      by (auto simp: placeBidHandler_def placeBid_rest_def split: prod.splits)
  next
    case (Some e)
    with assms(1) Inr p d placeBid_debit_Some [of "userService w" newBid trCheck trUpdate e us']
    show ?thesis
      by (auto simp: placeBidHandler_def placeBid_rest_def)
  qed
  ultimately show ?thesis by auto
qed

theorem placeBidHandler_validation_no_effect_witness:
  "placeBidHandler world0 (post_bid 1 7 120) 10 Delivered Delivered 11 =
     (Error ''Auction not found'' StatusNotFound, world0) \<and>
   placeBidHandler world0 (post_bid 1 1 120) 1001 Delivered Delivered 1002 =
     (Error ''Auction has ended'' StatusForbidden, world0) \<and>
   placeBidHandler world0 (post_bid 1 1 90) 10 Delivered Delivered 11 =
     (Error ''Bid must be higher than current bid'' StatusBadRequest, world0)"
proof -
  let ?h1 = "placeBidHandler world0 (post_bid 1 7 120) 10 Delivered Delivered 11"
  let ?h2 = "placeBidHandler world0 (post_bid 1 1 120) 1001 Delivered Delivered 1002"
  let ?h3 = "placeBidHandler world0 (post_bid 1 1 90) 10 Delivered Delivered 11"
  have r1: "fst ?h1 = Error ''Auction not found'' StatusNotFound"
    by (simp add: sample_defs placeBidHandler_def placeBid_rest_def placeBid_validate_def)
  have r2: "fst ?h2 = Error ''Auction has ended'' StatusForbidden"
    by (simp add: sample_defs placeBidHandler_def placeBid_rest_def placeBid_validate_def
        After_def)
  have r3: "fst ?h3 = Error ''Bid must be higher than current bid'' StatusBadRequest"
    by (simp add: sample_defs placeBidHandler_def placeBid_rest_def placeBid_validate_def
        After_def)
  have "snd ?h1 = world0"
    using placeBidHandler_validation_no_effect [OF surjective_pairing,
        where w = world0 and r = "post_bid 1 7 120" and now = 10 and trCheck = Delivered
          and trUpdate = Delivered and now' = 11] r1
    by simp
  moreover have "snd ?h2 = world0"
    using placeBidHandler_validation_no_effect [OF surjective_pairing,
        where w = world0 and r = "post_bid 1 1 120" and now = 1001 and trCheck = Delivered
          and trUpdate = Delivered and now' = 1002] r2
    by simp
  moreover have "snd ?h3 = world0"
    using placeBidHandler_validation_no_effect [OF surjective_pairing,
        where w = world0 and r = "post_bid 1 1 90" and now = 10 and trCheck = Delivered
          and trUpdate = Delivered and now' = 11] r3
    by simp
  ultimately show ?thesis
    using r1 r2 r3 by (simp add: prod_eq_iff)
qed

lemma placeBid_commit_frame:
  assumes "placeBid_commit s auction newBid now' = (resp, s')"
  shows "auctions s' = (auctions s)(AuctionID newBid \<mapsto> auction\<lparr>CurrentBid := Bid.Amount newBid\<rparr>)"
    and "bids s' = (bids s)(AuctionID newBid \<mapsto>
           ledger s (AuctionID newBid) @ [newBid\<lparr>Timestamp := now'\<rparr>])"
    and "nextAuctionID s' = nextAuctionID s"
    and "resp = accepted (Bid.Amount newBid)"
  using assms by (auto simp: placeBid_commit_def Let_def accepted_def)

text \<open>
  Claim C9. When a bid is accepted, the stored record of its auction is the old record
  with \<^verbatim>\<open>CurrentBid\<close> set to the bid's amount, so its id, item, seller, start
  time, end time, start bid and buy-now price are the old ones; the ledger of that auction
  is the old ledger with one bid appended; every other auction and every other ledger is
  unchanged, and so is \<^verbatim>\<open>nextAuctionID\<close>.
\<close>

theorem placeBidHandler_accept_frame:
  assumes "placeBidHandler w r now trCheck trUpdate now' = (resp, w')"
    and "StatusCode resp = StatusOK"
  shows "\<exists>newBid auction auction'.
           Body r = Some newBid \<and>
           auctions (auctionService w) (AuctionID newBid) = Some auction \<and>
           auctions (auctionService w') (AuctionID newBid) = Some auction' \<and>
           auction' = auction\<lparr>CurrentBid := Bid.Amount newBid\<rparr> \<and>
           Auction.ID auction' = Auction.ID auction \<and> Item auction' = Item auction \<and>
           SellerID auction' = SellerID auction \<and> StartTime auction' = StartTime auction \<and>
           EndTime auction' = EndTime auction \<and> StartBid auction' = StartBid auction \<and>
           BuyNow auction' = BuyNow auction \<and>
           ledger (auctionService w') (AuctionID newBid) =
             ledger (auctionService w) (AuctionID newBid) @ [newBid\<lparr>Timestamp := now'\<rparr>] \<and>
           (\<forall>k. k \<noteq> AuctionID newBid \<longrightarrow>
                 auctions (auctionService w') k = auctions (auctionService w) k \<and>
                 bids (auctionService w') k = bids (auctionService w) k \<and>
                 ledger (auctionService w') k = ledger (auctionService w) k) \<and>
           nextAuctionID (auctionService w') = nextAuctionID (auctionService w)"
proof -
  from placeBidHandler_accepted [OF assms] obtain auction newBid us' where
    v: "placeBid_validate (auctionService w) r now = Inr (auction, newBid)" and
    c: "placeBid_commit (auctionService w) auction newBid now' = (resp, auctionService w')"
    by blast
  from v have b: "Body r = Some newBid"
    and a: "auctions (auctionService w) (AuctionID newBid) = Some auction"
    by (simp_all add: placeBid_validate_Inr)
  note f = placeBid_commit_frame [OF c]
  show ?thesis
    apply (rule exI [of _ newBid], rule exI [of _ auction],
           rule exI [of _ "auction\<lparr>CurrentBid := Bid.Amount newBid\<rparr>"])
    using a b f(1,2,3) by (simp add: ledger_def)
qed

lemma first_bid:
  "placeBidHandler world0 (post_bid 1 1 120) 10 Delivered Delivered 11 =
     (accepted 120,
      \<lparr>auctionService =
         \<lparr>auctions = [1 \<mapsto> lot\<lparr>CurrentBid := 120\<rparr>],
          bids = [1 \<mapsto> [(json_bid 1 1 120)\<lparr>Timestamp := 11\<rparr>]],
          nextAuctionID = 2\<rparr>,
       userService =
         \<lparr>users = [1 \<mapsto> alice\<lparr>User.Balance := 30\<rparr>, 2 \<mapsto> bob, 3 \<mapsto> carol],
          nextUserID = 4\<rparr>\<rparr>)"
  by (simp add: sample_defs handler_defs fun_upd_twist)

theorem placeBidHandler_accept_frame_witness:
  "StatusCode (fst (placeBidHandler world0 (post_bid 1 1 120) 10 Delivered Delivered 11))
     = StatusOK \<and>
   (\<exists>newBid auction auction'.
      Body (post_bid 1 1 120) = Some newBid \<and>
      auctions (auctionService world0) (AuctionID newBid) = Some auction \<and>
      auctions (auctionService
        (snd (placeBidHandler world0 (post_bid 1 1 120) 10 Delivered Delivered 11)))
        (AuctionID newBid) = Some auction' \<and>
      auction' = auction\<lparr>CurrentBid := Bid.Amount newBid\<rparr> \<and>
      EndTime auction' = EndTime auction \<and>
      ledger (auctionService
        (snd (placeBidHandler world0 (post_bid 1 1 120) 10 Delivered Delivered 11)))
        (AuctionID newBid) =
        ledger (auctionService world0) (AuctionID newBid) @ [newBid\<lparr>Timestamp := 11\<rparr>])"
proof -
  let ?h = "placeBidHandler world0 (post_bid 1 1 120) 10 Delivered Delivered 11"
  have ok: "StatusCode (fst ?h) = StatusOK"
    by (simp add: first_bid accepted_def)
  from placeBidHandler_accept_frame [OF surjective_pairing ok] ok show ?thesis
    by blast
qed

text \<open>
  The commit of a copy that differs from the stored record in its current bid only, as a
  copy read earlier does when only bids were committed in between, still changes nothing
  but the current bid of that one auction.
\<close>

lemma placeBid_commit_stale_frame:
  assumes "placeBid_commit s auction newBid now' = (resp, s')"
    and "auctions s (AuctionID newBid) = Some stored"
    and "auction = stored\<lparr>CurrentBid := price\<rparr>"
  shows "auctions s' (AuctionID newBid) = Some (stored\<lparr>CurrentBid := Bid.Amount newBid\<rparr>)"
    and "k \<noteq> AuctionID newBid \<Longrightarrow> auctions s' k = auctions s k \<and> bids s' k = bids s k"
  using placeBid_commit_frame(1,2) [OF assms(1)] assms(3) by simp_all

lemma placeBid_debit_Delivered:
  assumes "users us (Bid.UserID newBid) = Some user"
    and "ParseFloat (Sprintf_f (Bid.Amount newBid)) \<le> User.Balance user"
    and "0 \<le> User.Balance user + - Bid.Amount newBid"
  shows "placeBid_debit us newBid Delivered Delivered =
           (None, us\<lparr>users := (users us)(Bid.UserID newBid \<mapsto>
              user\<lparr>User.Balance := User.Balance user + - Bid.Amount newBid\<rparr>)\<rparr>)"
  using assms
  by (simp add: placeBid_debit_def Get_check_balance_def Do_update_balance_def
      checkBalanceHandler_def updateBalanceHandler_def updateBalanceHandler_add_def Let_def)

lemma placeBid_debit_cannot:
  assumes "users us (Bid.UserID newBid) = Some user"
    and "User.Balance user < ParseFloat (Sprintf_f (Bid.Amount newBid))"
  shows "placeBid_debit us newBid Delivered trUpdate =
           (Some (Error ''Insufficient funds'' StatusPaymentRequired), us)"
  using assms
  by (simp add: placeBid_debit_def Get_check_balance_def checkBalanceHandler_def)

text \<open>
  Claim C8. An auction stands at price 100. A bid of 120 from a user whose balance is 150
  is accepted and the price becomes 120; then a bid of 110 is refused as too low (400);
  then a bid of 130 from a user whose balance is 50 is refused with
  \<^verbatim>\<open>Insufficient funds\<close> (402); the two refusals change nothing, so the price is
  still 120 at the end. The clock has not passed the auction's end time at any of the
  three requests, and the calls to the user service are delivered.
\<close>

theorem placeBidHandler_end_to_end:
  assumes a: "auctions (auctionService w) k = Some auction"
    and p: "StartBid auction = 100" "CurrentBid auction = 100"
    and t: "\<not> After t1 (EndTime auction)" "\<not> After t2 (EndTime auction)"
      "\<not> After t3 (EndTime auction)"
    and u1: "users (userService w) u1 = Some user1" "User.Balance user1 = 150"
    and u3: "users (userService w) u3 = Some user3" "User.Balance user3 = 50"
  shows "\<exists>w1. placeBidHandler w (post_bid u1 k 120) t1 Delivered Delivered t1' =
                  (accepted 120, w1) \<and>
              auctions (auctionService w1) k = Some (auction\<lparr>CurrentBid := 120\<rparr>) \<and>
              placeBidHandler w1 (post_bid u2 k 110) t2 c2 d2 t2' =
                  (Error ''Bid must be higher than current bid'' StatusBadRequest, w1) \<and>
              placeBidHandler w1 (post_bid u3 k 130) t3 Delivered d3 t3' =
                  (Error ''Insufficient funds'' StatusPaymentRequired, w1)"
proof -
  let ?b1 = "json_bid u1 k 120"
  let ?us1 = "(userService w)\<lparr>users := (users (userService w))(u1 \<mapsto>
                 user1\<lparr>User.Balance := 30\<rparr>)\<rparr>"
  let ?s1 = "(auctionService w)\<lparr>
               auctions := (auctions (auctionService w))(k \<mapsto> auction\<lparr>CurrentBid := 120\<rparr>),
               bids := (bids (auctionService w))(k \<mapsto>
                 ledger (auctionService w) k @ [?b1\<lparr>Timestamp := t1'\<rparr>])\<rparr>"
  let ?w1 = "\<lparr>auctionService = ?s1, userService = ?us1\<rparr>"
  have v1: "placeBid_validate (auctionService w) (post_bid u1 k 120) t1 = Inr (auction, ?b1)"
    using a p t by (simp add: placeBid_validate_Inr post_bid_def json_bid_def)
  have d1: "placeBid_debit (userService w) ?b1 Delivered Delivered = (None, ?us1)"
    using placeBid_debit_Delivered [of "userService w" ?b1 user1] u1
    by (simp add: json_bid_def)
  have c1: "placeBid_commit (auctionService w) auction ?b1 t1' = (accepted 120, ?s1)"
    by (simp add: placeBid_commit_def accepted_def json_bid_def)
  have h1: "placeBidHandler w (post_bid u1 k 120) t1 Delivered Delivered t1' =
              (accepted 120, ?w1)"
    by (simp add: placeBidHandler_def placeBid_rest_def v1 d1 c1)
  have a1: "auctions (auctionService ?w1) k = Some (auction\<lparr>CurrentBid := 120\<rparr>)"
    by simp
  have h2: "placeBidHandler ?w1 (post_bid u2 k 110) t2 c2 d2 t2' =
              (Error ''Bid must be higher than current bid'' StatusBadRequest, ?w1)"
    using t by (simp add: placeBidHandler_def placeBid_rest_def placeBid_validate_def
        post_bid_def json_bid_def)
  have ne: "u3 \<noteq> u1"
    using u1 u3 by auto
  have v3: "placeBid_validate ?s1 (post_bid u3 k 130) t3 =
              Inr (auction\<lparr>CurrentBid := 120\<rparr>, json_bid u3 k 130)"
    using t by (simp add: placeBid_validate_Inr post_bid_def json_bid_def)
  have d3: "placeBid_debit ?us1 (json_bid u3 k 130) Delivered d3 =
              (Some (Error ''Insufficient funds'' StatusPaymentRequired), ?us1)"
    using placeBid_debit_cannot [of ?us1 "json_bid u3 k 130" user3] u3 ne
    by (simp add: json_bid_def)
  have h3: "placeBidHandler ?w1 (post_bid u3 k 130) t3 Delivered d3 t3' =
              (Error ''Insufficient funds'' StatusPaymentRequired, ?w1)"
    by (simp add: placeBidHandler_def placeBid_rest_def v3 d3)
  from h1 a1 h2 h3 show ?thesis
    by blast
qed

theorem placeBidHandler_end_to_end_witness:
  "auctions (auctionService world0) 1 = Some lot \<and>
   StartBid lot = 100 \<and> CurrentBid lot = 100 \<and> \<not> After 10 (EndTime lot) \<and>
   users (userService world0) 1 = Some alice \<and> User.Balance alice = 150 \<and>
   users (userService world0) 2 = Some bob \<and> User.Balance bob = 50 \<and>
   (\<exists>w1. placeBidHandler world0 (post_bid 1 1 120) 10 Delivered Delivered 11 =
            (accepted 120, w1) \<and>
         auctions (auctionService w1) 1 = Some (lot\<lparr>CurrentBid := 120\<rparr>) \<and>
         placeBidHandler w1 (post_bid 3 1 110) 10 Delivered Delivered 11 =
            (Error ''Bid must be higher than current bid'' StatusBadRequest, w1) \<and>
         placeBidHandler w1 (post_bid 2 1 130) 10 Delivered Delivered 11 =
            (Error ''Insufficient funds'' StatusPaymentRequired, w1))"
proof -
  have h: "auctions (auctionService world0) 1 = Some lot"
    "StartBid lot = 100" "CurrentBid lot = 100"
    "\<not> After 10 (EndTime lot)" "\<not> After 10 (EndTime lot)" "\<not> After 10 (EndTime lot)"
    "users (userService world0) 1 = Some alice" "User.Balance alice = 150"
    "users (userService world0) 2 = Some bob" "User.Balance bob = 50"
    by (simp_all add: sample_defs After_def)
  from placeBidHandler_end_to_end [OF h, of 11 3 Delivered Delivered 11 Delivered 11] h
  show ?thesis
    by simp
qed

section \<open>The deduction has no correlation id\<close>

text \<open>
  Against claim C3 as stated. The body of \<^verbatim>\<open>PUT /users/update_balance\<close> is a user id and an amount, nothing
  else, and \<^verbatim>\<open>updateBalanceHandler\<close> keeps no record of the requests it has
  served. Sending the request that deducts 50 from a balance of 150 once leaves 100;
  sending it a second time leaves 50, a different state.
\<close>

theorem updateBalanceHandler_retry_counterexample:
  "users (snd (updateBalanceHandler users0 ''PUT''
        (Some \<lparr>BalanceUpdate.UserID = 1, BalanceUpdate.Amount = - 50\<rparr>))) 1 =
     Some (alice\<lparr>User.Balance := 100\<rparr>) \<and>
   users (snd (updateBalanceHandler
        (snd (updateBalanceHandler users0 ''PUT''
           (Some \<lparr>BalanceUpdate.UserID = 1, BalanceUpdate.Amount = - 50\<rparr>))) ''PUT''
        (Some \<lparr>BalanceUpdate.UserID = 1, BalanceUpdate.Amount = - 50\<rparr>))) 1 =
     Some (alice\<lparr>User.Balance := 50\<rparr>) \<and>
   snd (updateBalanceHandler
        (snd (updateBalanceHandler users0 ''PUT''
           (Some \<lparr>BalanceUpdate.UserID = 1, BalanceUpdate.Amount = - 50\<rparr>))) ''PUT''
        (Some \<lparr>BalanceUpdate.UserID = 1, BalanceUpdate.Amount = - 50\<rparr>)) \<noteq>
   snd (updateBalanceHandler users0 ''PUT''
           (Some \<lparr>BalanceUpdate.UserID = 1, BalanceUpdate.Amount = - 50\<rparr>))"
proof -
  let ?d = "Some \<lparr>BalanceUpdate.UserID = 1, BalanceUpdate.Amount = - 50\<rparr>"
  let ?s1 = "snd (updateBalanceHandler users0 ''PUT'' ?d)"
  let ?s2 = "snd (updateBalanceHandler ?s1 ''PUT'' ?d)"
  have one: "users ?s1 1 = Some (alice\<lparr>User.Balance := 100\<rparr>)"
    by (simp add: updateBalanceHandler_def updateBalanceHandler_add_def users0_def alice_def Let_def)
  have two: "users ?s2 1 = Some (alice\<lparr>User.Balance := 50\<rparr>)"
    by (simp add: updateBalanceHandler_def updateBalanceHandler_add_def users0_def alice_def Let_def)
  have "users ?s2 1 \<noteq> users ?s1 1"
    unfolding one two by (simp add: alice_def)
  then have "?s2 \<noteq> ?s1" by metis
  with one two show ?thesis by simp
qed

lemma updateBalanceHandler_add_applied:
  assumes "users s (BalanceUpdate.UserID update) = Some user"
    and "\<not> add (User.Balance user) (BalanceUpdate.Amount update) < 0"
  shows "updateBalanceHandler_add add s ''PUT'' (Some update) =
           (Encode (user\<lparr>User.Balance :=
                      add (User.Balance user) (BalanceUpdate.Amount update)\<rparr>),
            s\<lparr>users := (users s)(BalanceUpdate.UserID update \<mapsto>
                 user\<lparr>User.Balance :=
                   add (User.Balance user) (BalanceUpdate.Amount update)\<rparr>)\<rparr>)"
  using assms by (simp add: updateBalanceHandler_add_def Let_def)

text \<open>
  Claim C3, as the code has it. The deduction is not idempotent: a request that passes
  the checks is applied every time it is submitted, whatever was submitted before. With
  \<open>add\<close> the addition the handler uses, exact or rounded: when the same request passes
  twice, the balance after the first submission is \<open>add\<close> of the old balance and the
  amount, and after the second it is \<open>add\<close> of that balance and the amount once more.
  The second submission leaves the state of the first only in the case where adding the
  amount again gives the same balance back.
\<close>

theorem updateBalanceHandler_add_twice:
  assumes "users s (BalanceUpdate.UserID update) = Some user"
    and "\<not> add (User.Balance user) (BalanceUpdate.Amount update) < 0"
    and "\<not> add (add (User.Balance user) (BalanceUpdate.Amount update))
               (BalanceUpdate.Amount update) < 0"
    and "updateBalanceHandler_add add s ''PUT'' (Some update) = (resp1, s1)"
    and "updateBalanceHandler_add add s1 ''PUT'' (Some update) = (resp2, s2)"
  shows "users s1 (BalanceUpdate.UserID update) =
           Some (user\<lparr>User.Balance :=
                   add (User.Balance user) (BalanceUpdate.Amount update)\<rparr>) \<and>
         users s2 (BalanceUpdate.UserID update) =
           Some (user\<lparr>User.Balance :=
                   add (add (User.Balance user) (BalanceUpdate.Amount update))
                       (BalanceUpdate.Amount update)\<rparr>) \<and>
         (s2 = s1) =
           (add (add (User.Balance user) (BalanceUpdate.Amount update))
                (BalanceUpdate.Amount update) =
            add (User.Balance user) (BalanceUpdate.Amount update))"
proof -
  let ?k = "BalanceUpdate.UserID update"
  let ?b1 = "add (User.Balance user) (BalanceUpdate.Amount update)"
  let ?b2 = "add ?b1 (BalanceUpdate.Amount update)"
  let ?u1 = "user\<lparr>User.Balance := ?b1\<rparr>"
  let ?u2 = "user\<lparr>User.Balance := ?b2\<rparr>"
  have s1: "s1 = s\<lparr>users := (users s)(?k \<mapsto> ?u1)\<rparr>"
    using updateBalanceHandler_add_applied [where add = add, OF assms(1,2)] assms(4) by simp
  then have one: "users s1 ?k = Some ?u1"
    by simp
  have pass: "\<not> add (User.Balance ?u1) (BalanceUpdate.Amount update) < 0"
    using assms(3) by simp
  have s2: "s2 = s1\<lparr>users := (users s1)(?k \<mapsto> ?u2)\<rparr>"
    using updateBalanceHandler_add_applied [where add = add, OF one pass] assms(5) by simp
  then have two: "users s2 ?k = Some ?u2"
    by simp
  have "(s2 = s1) = (?b2 = ?b1)"
  proof
    assume "s2 = s1"
    with one two have "?u2 = ?u1"
      by simp
    then have "User.Balance ?u2 = User.Balance ?u1"
      by (rule arg_cong)
    then show "?b2 = ?b1"
      by simp
  next
    assume "?b2 = ?b1"
    then have "(users s1)(?k \<mapsto> ?u2) = users s1"
      using one by (simp add: fun_upd_idem)
    with s2 show "s2 = s1"
      by simp
  qed
  with one two show ?thesis
    by simp
qed

theorem updateBalanceHandler_add_twice_witness:
  "users users0 1 = Some alice \<and>
   \<not> User.Balance alice + (- 50) < 0 \<and> \<not> User.Balance alice + (- 50) + (- 50) < 0 \<and>
   users (snd (updateBalanceHandler_add (+) users0 ''PUT''
        (Some \<lparr>BalanceUpdate.UserID = 1, BalanceUpdate.Amount = - 50\<rparr>))) 1 =
     Some (alice\<lparr>User.Balance := 100\<rparr>) \<and>
   users (snd (updateBalanceHandler_add (+)
        (snd (updateBalanceHandler_add (+) users0 ''PUT''
           (Some \<lparr>BalanceUpdate.UserID = 1, BalanceUpdate.Amount = - 50\<rparr>))) ''PUT''
        (Some \<lparr>BalanceUpdate.UserID = 1, BalanceUpdate.Amount = - 50\<rparr>))) 1 =
     Some (alice\<lparr>User.Balance := 50\<rparr>) \<and>
   snd (updateBalanceHandler_add (+)
        (snd (updateBalanceHandler_add (+) users0 ''PUT''
           (Some \<lparr>BalanceUpdate.UserID = 1, BalanceUpdate.Amount = - 50\<rparr>))) ''PUT''
        (Some \<lparr>BalanceUpdate.UserID = 1, BalanceUpdate.Amount = - 50\<rparr>)) \<noteq>
   snd (updateBalanceHandler_add (+) users0 ''PUT''
        (Some \<lparr>BalanceUpdate.UserID = 1, BalanceUpdate.Amount = - 50\<rparr>))"
proof -
  let ?d = "\<lparr>BalanceUpdate.UserID = 1, BalanceUpdate.Amount = - 50\<rparr>"
  have h: "users users0 (BalanceUpdate.UserID ?d) = Some alice"
    "\<not> User.Balance alice + BalanceUpdate.Amount ?d < 0"
    "\<not> User.Balance alice + BalanceUpdate.Amount ?d + BalanceUpdate.Amount ?d < 0"
    by (simp_all add: users0_def alice_def)
  from updateBalanceHandler_add_twice [where add = "(+)" and s = users0 and update = ?d
      and user = alice, OF h surjective_pairing surjective_pairing] h
  show ?thesis
    by (simp add: alice_def)
qed

text \<open>
  The same at the level of a bid. The first attempt loses the answer to its deduction and
  is answered 503 with the bidder already charged; the bidder's retry is charged again.
  One accepted bid of 120 has cost 240.
\<close>

lemma placeBidHandler_retry_after_timeout:
  "serve world0
     [\<lparr>Req = post_bid 3 1 120, Now = 10, CheckNet = Delivered, UpdateNet = ResponseLost,
       Now' = 16\<rparr>,
      delivered (post_bid 3 1 120) 20 21] =
     ([Error ''User service unavailable'' StatusServiceUnavailable, accepted 120],
      \<lparr>auctionService =
         \<lparr>auctions = [1 \<mapsto> lot\<lparr>CurrentBid := 120\<rparr>],
          bids = [1 \<mapsto> [(json_bid 3 1 120)\<lparr>Timestamp := 21\<rparr>]],
          nextAuctionID = 2\<rparr>,
       userService =
         \<lparr>users = [1 \<mapsto> alice, 2 \<mapsto> bob, 3 \<mapsto> carol\<lparr>User.Balance := 260\<rparr>],
          nextUserID = 4\<rparr>\<rparr>)"
  by (simp add: sample_defs handler_defs)

section \<open>Overlapping bids on one auction\<close>

text \<open>
  Claim C2, at the input where the code departs from it. The auction stands at 100. A bid
  of 150 and a bid of 120 both pass the check of line 148 against the price 100 before
  either reaches line 231. The bid of 150 commits and the stored price is 150; then the
  bid of 120 commits, is answered as accepted, and the stored price is 120. The ledger
  holds the committed amounts 150, 120 in this order.
\<close>

theorem placeBid_lost_update:
  "serve_overlapping world0 (delivered (post_bid 1 1 150) 10 20)
                            (delivered (post_bid 3 1 120) 11 21) =
     (accepted 150, accepted 120,
      \<lparr>auctionService =
         \<lparr>auctions = [1 \<mapsto> lot\<lparr>CurrentBid := 120\<rparr>],
          bids = [1 \<mapsto> [(json_bid 1 1 150)\<lparr>Timestamp := 20\<rparr>,
                        (json_bid 3 1 120)\<lparr>Timestamp := 21\<rparr>]],
          nextAuctionID = 2\<rparr>,
       userService =
         \<lparr>users = [1 \<mapsto> alice\<lparr>User.Balance := 0\<rparr>, 2 \<mapsto> bob,
                   3 \<mapsto> carol\<lparr>User.Balance := 380\<rparr>],
          nextUserID = 4\<rparr>\<rparr>) \<and>
   auctions (auctionService (snd (placeBid_rest world0
       (placeBid_validate (auctionService world0) (post_bid 1 1 150) 10)
       Delivered Delivered 20))) 1 = Some (lot\<lparr>CurrentBid := 150\<rparr>)"
  by (simp add: sample_defs handler_defs serve_overlapping_def fun_upd_twist)

text \<open>Served one after the other, the same two requests end with the lower bid refused.\<close>

lemma serve_in_turn_rejects_lower:
  "fst (serve world0 [delivered (post_bid 1 1 150) 10 20,
                           delivered (post_bid 3 1 120) 21 22]) =
   [accepted 150, Error ''Bid must be higher than current bid'' StatusBadRequest]"
  by (simp add: sample_defs handler_defs fun_upd_twist)

text \<open>
  Claim C1, at the input where the code departs from it. Two bids of 120 both run lines
  123 to 151 on the table where the auction \<open>lot\<close> stands at 100, and each is handed the
  copy \<open>lot\<close>. The first commits: the stored price is 120 and the stored record is no
  longer the one the second read. The second then commits all the same, although its
  amount does not exceed the stored price: it is answered as accepted and the ledger
  holds two bids of 120. Lines 231 to 236 store the copy and compare nothing.
\<close>

theorem placeBid_stale_commit:
  "placeBid_validate (auctionService world0) (post_bid 3 1 120) 11 =
     Inr (lot, json_bid 3 1 120) \<and>
   auctions (auctionService (snd (placeBid_rest world0
       (placeBid_validate (auctionService world0) (post_bid 1 1 120) 10)
       Delivered Delivered 20))) 1 = Some (lot\<lparr>CurrentBid := 120\<rparr>) \<and>
   \<not> CurrentBid (lot\<lparr>CurrentBid := 120\<rparr>) < Bid.Amount (json_bid 3 1 120) \<and>
   lot\<lparr>CurrentBid := 120\<rparr> \<noteq> lot \<and>
   serve_overlapping world0 (delivered (post_bid 1 1 120) 10 20)
                            (delivered (post_bid 3 1 120) 11 21) =
     (accepted 120, accepted 120,
      \<lparr>auctionService =
         \<lparr>auctions = [1 \<mapsto> lot\<lparr>CurrentBid := 120\<rparr>],
          bids = [1 \<mapsto> [(json_bid 1 1 120)\<lparr>Timestamp := 20\<rparr>,
                        (json_bid 3 1 120)\<lparr>Timestamp := 21\<rparr>]],
          nextAuctionID = 2\<rparr>,
       userService =
         \<lparr>users = [1 \<mapsto> alice\<lparr>User.Balance := 30\<rparr>, 2 \<mapsto> bob,
                   3 \<mapsto> carol\<lparr>User.Balance := 380\<rparr>],
          nextUserID = 4\<rparr>\<rparr>)"
  by (simp add: sample_defs handler_defs serve_overlapping_def fun_upd_twist)

section \<open>A bid at the closing instant\<close>

text \<open>
  Claim C4, at the input where the code departs from it. The auction \<open>lot\<close> ends at
  1000. A bid served at clock reading 1000 is accepted and committed, although
  \<^verbatim>\<open>listAuctionsHandler\<close> at the same reading no longer lists the auction as active.
  One instant later the bid is answered \<^verbatim>\<open>Auction has ended\<close> with status 403 and
  nothing changes.
\<close>

theorem placeBidHandler_at_EndTime:
  "EndTime lot = 1000 \<and>
   placeBidHandler world0 (post_bid 1 1 120) 1000 Delivered Delivered 1001 =
     (accepted 120,
      \<lparr>auctionService =
         \<lparr>auctions = [1 \<mapsto> lot\<lparr>CurrentBid := 120\<rparr>],
          bids = [1 \<mapsto> [(json_bid 1 1 120)\<lparr>Timestamp := 1001\<rparr>]],
          nextAuctionID = 2\<rparr>,
       userService =
         \<lparr>users = [1 \<mapsto> alice\<lparr>User.Balance := 30\<rparr>, 2 \<mapsto> bob, 3 \<mapsto> carol],
          nextUserID = 4\<rparr>\<rparr>) \<and>
   listAuctionsHandler (auctionService world0) ''GET'' 1000 = Encode {} \<and>
   placeBidHandler world0 (post_bid 1 1 120) 1001 Delivered Delivered 1002 =
     (Error ''Auction has ended'' StatusForbidden, world0)"
  by (simp add: sample_defs handler_defs listAuctionsHandler_def fun_upd_twist)

section \<open>Counting accepted bids\<close>

text \<open>
  From the same record \<open>lot\<close>, one accepted bid of 130 and two accepted bids of 120 and
  130 leave the same auction record behind.
\<close>

lemma serve_one_bid:
  "serve world0 [delivered (post_bid 3 1 130) 10 11] =
     ([accepted 130],
      \<lparr>auctionService =
         \<lparr>auctions = [1 \<mapsto> lot\<lparr>CurrentBid := 130\<rparr>],
          bids = [1 \<mapsto> [(json_bid 3 1 130)\<lparr>Timestamp := 11\<rparr>]],
          nextAuctionID = 2\<rparr>,
       userService =
         \<lparr>users = [1 \<mapsto> alice, 2 \<mapsto> bob, 3 \<mapsto> carol\<lparr>User.Balance := 370\<rparr>],
          nextUserID = 4\<rparr>\<rparr>)"
  by (simp add: sample_defs handler_defs)

lemma serve_two_bids:
  "serve world0 [delivered (post_bid 3 1 120) 10 11, delivered (post_bid 3 1 130) 12 13] =
     ([accepted 120, accepted 130],
      \<lparr>auctionService =
         \<lparr>auctions = [1 \<mapsto> lot\<lparr>CurrentBid := 130\<rparr>],
          bids = [1 \<mapsto> [(json_bid 3 1 120)\<lparr>Timestamp := 11\<rparr>,
                        (json_bid 3 1 130)\<lparr>Timestamp := 13\<rparr>]],
          nextAuctionID = 2\<rparr>,
       userService =
         \<lparr>users = [1 \<mapsto> alice, 2 \<mapsto> bob, 3 \<mapsto> carol\<lparr>User.Balance := 250\<rparr>],
          nextUserID = 4\<rparr>\<rparr>)"
  by (simp add: sample_defs handler_defs)

text \<open>
  Against claim C7 as stated: nothing that is read off the \<^verbatim>\<open>Auction\<close> record can be a version that goes up
  by one with every accepted bid.
\<close>

theorem Auction_version_counterexample:
  "\<not> (\<exists>version :: Auction \<Rightarrow> int.
        \<forall>w as resps w' k auction auction'.
          serve w as = (resps, w') \<and>
          auctions (auctionService w) k = Some auction \<and>
          auctions (auctionService w') k = Some auction' \<longrightarrow>
            version auction' = version auction + int (accepted_on k as resps))"
proof
  assume "\<exists>version :: Auction \<Rightarrow> int.
        \<forall>w as resps w' k auction auction'.
          serve w as = (resps, w') \<and>
          auctions (auctionService w) k = Some auction \<and>
          auctions (auctionService w') k = Some auction' \<longrightarrow>
            version auction' = version auction + int (accepted_on k as resps)"
  then obtain version :: "Auction \<Rightarrow> int" where
    v: "\<And>w as resps w' k auction auction'.
          serve w as = (resps, w') \<Longrightarrow>
          auctions (auctionService w) k = Some auction \<Longrightarrow>
          auctions (auctionService w') k = Some auction' \<Longrightarrow>
            version auction' = version auction + int (accepted_on k as resps)"
    by blast
  have a0: "auctions (auctionService world0) 1 = Some lot"
    by (simp add: world0_def auctions0_def)
  have "version (lot\<lparr>CurrentBid := 130\<rparr>) = version lot + 1"
    using v [OF serve_one_bid, of 1 lot "lot\<lparr>CurrentBid := 130\<rparr>"] a0
    by (simp add: sample_defs)
  moreover have "version (lot\<lparr>CurrentBid := 130\<rparr>) = version lot + 2"
    using v [OF serve_two_bids, of 1 lot "lot\<lparr>CurrentBid := 130\<rparr>"] a0
    by (simp add: sample_defs)
  ultimately show False by simp
qed

lemma placeBid_commit_ledger:
  assumes "placeBid_commit s auction newBid now' = (resp, s')"
  shows "ledger s' k =
           (if k = AuctionID newBid then ledger s k @ [newBid\<lparr>Timestamp := now'\<rparr>]
            else ledger s k)"
  using placeBid_commit_frame(2) [OF assms] by (simp add: ledger_def)

lemma placeBidHandler_ledger_length:
  assumes "placeBidHandler w r now trCheck trUpdate now' = (resp, w')"
  shows "length (ledger (auctionService w') k) =
           length (ledger (auctionService w) k) +
           (if StatusCode resp = StatusOK \<and> map_option AuctionID (Body r) = Some k
            then 1 else 0)"
proof (cases "StatusCode resp = StatusOK")
  case True
  from placeBidHandler_accepted [OF assms True] obtain auction newBid where
    v: "placeBid_validate (auctionService w) r now = Inr (auction, newBid)" and
    c: "placeBid_commit (auctionService w) auction newBid now' = (resp, auctionService w')"
    by blast
  from v have "Body r = Some newBid"
    by (simp add: placeBid_validate_Inr)
  with placeBid_commit_ledger [OF c, of k] True show ?thesis
    by auto
next
  case False
  with placeBidHandler_not_accepted [OF assms False] show ?thesis by simp
qed

text \<open>
  Claim C7, as the code has it. The \<^verbatim>\<open>Auction\<close> record carries no version counter.
  What counts the accepted bids of an auction is its ledger: after a list of requests
  served in turn, the ledger of auction \<open>k\<close> is longer than before by exactly the number
  of requests on \<open>k\<close> that were answered 200, one entry for each accepted bid.
\<close>

theorem serve_ledger_counts_accepted:
  assumes "serve w as = (resps, w')"
  shows "length (ledger (auctionService w') k) =
           length (ledger (auctionService w) k) + accepted_on k as resps"
  using assms
proof (induction as arbitrary: w resps w')
  case Nil
  then show ?case by simp
next
  case (Cons a as)
  obtain resp w1 where h: "placeBidHandler w (Req a) (Now a) (CheckNet a) (UpdateNet a) (Now' a) = (resp, w1)"
    by (cases "placeBidHandler w (Req a) (Now a) (CheckNet a) (UpdateNet a) (Now' a)")
  obtain rest w2 where t: "serve w1 as = (rest, w2)"
    by (cases "serve w1 as")
  from Cons.prems h t have e: "resps = resp # rest" "w' = w2"
    by simp_all
  from Cons.IH [OF t] placeBidHandler_ledger_length [OF h, of k] e
  show ?case by simp
qed

theorem serve_ledger_counts_accepted_witness:
  "accepted_on 1 [delivered (post_bid 3 1 120) 10 11, delivered (post_bid 3 1 130) 12 13]
     (fst (serve world0
        [delivered (post_bid 3 1 120) 10 11, delivered (post_bid 3 1 130) 12 13])) = 2 \<and>
   length (ledger (auctionService world0) 1) = 0 \<and>
   length (ledger (auctionService (snd (serve world0
        [delivered (post_bid 3 1 120) 10 11, delivered (post_bid 3 1 130) 12 13]))) 1) = 2"
proof -
  let ?as = "[delivered (post_bid 3 1 120) 10 11, delivered (post_bid 3 1 130) 12 13]"
  have n: "accepted_on 1 ?as (fst (serve world0 ?as)) = 2"
    unfolding serve_two_bids by (simp add: sample_defs)
  have z: "length (ledger (auctionService world0) 1) = 0"
    by (simp add: sample_defs ledger_def)
  from serve_ledger_counts_accepted [OF surjective_pairing, of world0 ?as 1] n z
  show ?thesis by simp
qed

end
